theory Spec2Isabelle
  imports Complex_Main "HOL-Library.AList"
begin

section \<open>Values, exceptions and collaborators\<close>

text \<open>
  The service passes loosely typed structured values around: the dictionaries built by the
  provider, and whatever \<^verbatim>\<open>json.loads\<close> decodes from a remote answer. They are modelled
  by one datatype. A Python \<^verbatim>\<open>dict\<close> keeps its insertion order, so an object is an
  association list; \<^verbatim>\<open>json.loads\<close> and the dictionary displays of the source give every key
  once. A number is given by its exact value, a rational: every integer and every IEEE
  float is one (NaN and the infinities are not modelled). What floating point arithmetic
  makes of such values is not computed here: the operations are parameters, see below.
  A \<open>char\<close> stands for one code point below 256, so \<open>length\<close> is Python's \<^verbatim>\<open>len\<close>
  on such texts.
\<close>

datatype json =
    JNull
  | JBool bool
  | JNum rat
  | JStr string
  | JArr "json list"
  | JObj "(string \<times> json) list"

text \<open>The exceptions that the modelled code raises or lets through.\<close>

datatype exn =
    ValueError string
  | JSONDecodeError
  | RecursionError
  | TypeError
  | AttributeError
  | OverflowError
  | ZeroDivisionError
  | BackendError string

section \<open>Python built-ins used by the service\<close>

text \<open>
  \<^verbatim>\<open>str.isspace\<close> on the code points below 256: TAB, LF, VT, FF, CR, the four separators
  FS, GS, RS, US, the space, NEL (0x85) and the no-break space (0xA0).
\<close>

definition is_space :: "char \<Rightarrow> bool" where
  "is_space c = (of_char c \<in> {9, 10, 11, 12, 13, 28, 29, 30, 31, 32, 133, 160 :: nat})"

text \<open>
  \<^verbatim>\<open>text.split()\<close> without arguments: the maximal runs of non-whitespace characters, in
  order. The first argument is the word being read.
\<close>

fun split_from :: "string \<Rightarrow> string \<Rightarrow> string list" where
  "split_from w [] = (if w = [] then [] else [w])"
| "split_from w (c # cs) =
     (if is_space c then (if w = [] then split_from [] cs else w # split_from [] cs)
      else split_from (w @ [c]) cs)"

definition py_split :: "string \<Rightarrow> string list" where
  "py_split text = split_from [] text"

text \<open>\<^verbatim>\<open>s.strip()\<close>: leading and trailing whitespace removed.\<close>

definition py_strip :: "string \<Rightarrow> string" where
  "py_strip s = rev (dropWhile is_space (rev (dropWhile is_space s)))"

text \<open>
  A Python number as the reports hold it: an \<^verbatim>\<open>int\<close>, or a \<^verbatim>\<open>float\<close> given by its
  exact value.
\<close>

datatype number = PyInt int | PyFloat rat

text \<open>
  The floating point operations of the runtime that the reports use. They are parameters
  of the model, and nothing is assumed about them:
  \<^item> \<open>true_div a b\<close>: the float that \<^verbatim>\<open>a / b\<close> gives for two integers, \<open>b\<close> not zero;
  \<^item> \<open>round_float n x\<close>: the float that \<^verbatim>\<open>round(x, n)\<close> gives for a float \<open>x\<close>.
\<close>

record float_ops =
  true_div :: "int \<Rightarrow> int \<Rightarrow> rat"
  round_float :: "nat \<Rightarrow> rat \<Rightarrow> rat"

text \<open>\<^verbatim>\<open>a / b\<close> on integers: true division, raising on a zero divisor.\<close>

definition py_truediv :: "float_ops \<Rightarrow> int \<Rightarrow> int \<Rightarrow> exn + number" where
  "py_truediv fl a b = (if b = 0 then Inl ZeroDivisionError else Inr (PyFloat (true_div fl a b)))"

text \<open>
  \<^verbatim>\<open>round(x, n)\<close> with \<open>n\<close> digits after the point: an \<^verbatim>\<open>int\<close> is returned as it is,
  a \<^verbatim>\<open>float\<close> is rounded by the runtime.
\<close>

definition py_round :: "float_ops \<Rightarrow> nat \<Rightarrow> number \<Rightarrow> number" where
  "py_round fl n x = (case x of PyInt i \<Rightarrow> PyInt i | PyFloat q \<Rightarrow> PyFloat (round_float fl n q))"

section \<open>llm\_service.py: the provider\<close>

text \<open>
  The constructor accepts the two provider names and raises \<^verbatim>\<open>ValueError\<close> for any other,
  so a service object has one of two variants. Every method tests
  \<^verbatim>\<open>self.provider == "openai"\<close> and takes the Hugging Face branch otherwise.
\<close>

datatype provider = OpenAI | HuggingFace

text \<open>One element of the list that the NER pipeline returns, with the keys the code reads.\<close>

record raw_entity =
  entity :: string
  word :: string
  score :: rat

text \<open>
  The collaborators behind the provider, as functions of their input. Each may raise.
  \<^item> \<open>chat\<close>: \<^verbatim>\<open>client.chat.completions.create\<close> with a system and a user message,
    giving \<^verbatim>\<open>response.choices[0].message.content\<close>, which the API may leave \<^verbatim>\<open>None\<close>;
  \<^item> \<open>summarizer\<close>: the summarization pipeline, giving \<^verbatim>\<open>summary[0]['summary_text']\<close>;
  \<^item> \<open>ner_pipeline\<close>: the raw mentions;
  \<^item> \<open>sentiment_analyzer\<close>: label and score of the first classification;
  \<^item> \<open>round_ner_score\<close>, \<open>round_sentiment_score\<close>: \<^verbatim>\<open>round(x, n)\<close> on a score of the
    NER pipeline and of the sentiment pipeline, in the floating point type that pipeline
    returns (a \<^verbatim>\<open>numpy.float32\<close> or a \<^verbatim>\<open>float\<close>); nothing is assumed about them;
  \<^item> \<open>json_loads\<close>: \<^verbatim>\<open>json.loads\<close> on a string. It returns the decoded value or raises:
    \<^verbatim>\<open>JSONDecodeError\<close> for a text that is not JSON, and also \<^verbatim>\<open>RecursionError\<close> (deep
    nesting) or a plain \<^verbatim>\<open>ValueError\<close> (an integer literal beyond the digit limit).
\<close>

record backend =
  chat :: "string \<Rightarrow> string \<Rightarrow> exn + string option"
  summarizer :: "string \<Rightarrow> exn + string"
  ner_pipeline :: "string \<Rightarrow> exn + raw_entity list"
  sentiment_analyzer :: "string \<Rightarrow> exn + string \<times> rat"
  round_ner_score :: "nat \<Rightarrow> rat \<Rightarrow> rat"
  round_sentiment_score :: "nat \<Rightarrow> rat \<Rightarrow> rat"
  json_loads :: "string \<Rightarrow> exn + json"

text \<open>A method returns the backend calls it made, in order, and its outcome.\<close>

datatype backend_call =
    ChatCompletion string string
  | Summarizer string
  | NerPipeline string
  | SentimentAnalyzer string

type_synonym 'a run = "backend_call list \<times> (exn + 'a)"

definition summarize_system :: string where
  "summarize_system = ''You are a helpful assistant that summarizes text.''"

definition summarize_user :: "string \<Rightarrow> string" where
  "summarize_user text =
     ''Please summarize the following text in a concise paragraph:'' @ [CHR 0x0A, CHR 0x0A] @ text"

definition entities_system :: string where
  "entities_system = ''Extract named entities from the text and categorize them by type (PERSON, ORGANIZATION, LOCATION, etc.). Return the result as a JSON object.''"

definition sentiment_system :: string where
  "sentiment_system = ''Analyze the sentiment of the text and return only a JSON object with 'sentiment' (POSITIVE, NEGATIVE, or NEUTRAL) and 'score' (a number between 0 and 1 indicating confidence).''"

definition summarize_text :: "backend \<Rightarrow> provider \<Rightarrow> string \<Rightarrow> json run" where
  "summarize_text be prov text =
     (if length (py_split text) < 30 then
        ([], Inr (JObj [(''summary'', JStr text),
                        (''note'', JStr ''Text too short for meaningful summarization'')]))
      else if prov = OpenAI then
        ([ChatCompletion summarize_system (summarize_user text)],
         case chat be summarize_system (summarize_user text) of
           Inl e \<Rightarrow> Inl e
         | Inr None \<Rightarrow> Inl AttributeError
         | Inr (Some content) \<Rightarrow> Inr (JObj [(''summary'', JStr (py_strip content))]))
      else
        ([Summarizer text],
         case summarizer be text of
           Inl e \<Rightarrow> Inl e
         | Inr summary_text \<Rightarrow> Inr (JObj [(''summary'', JStr summary_text)])))"

text \<open>
  One round of the grouping loop: a type seen for the first time gets an empty list at the
  end of the dictionary, then the mention is appended to the list of its type. The first
  argument is \<^verbatim>\<open>round\<close> on the scores of the pipeline.
\<close>

definition group_entity ::
  "(nat \<Rightarrow> rat \<Rightarrow> rat) \<Rightarrow> raw_entity \<Rightarrow> (string \<times> json list) list
     \<Rightarrow> (string \<times> json list) list" where
  "group_entity rnd e grouped_entities =
     (let entity_type = entity e;
          g = (if entity_type \<notin> fst ` set grouped_entities
               then grouped_entities @ [(entity_type, [])] else grouped_entities)
      in AList.map_entry entity_type
           (\<lambda>items. items @ [JObj [(''word'', JStr (word e)),
                                     (''score'', JNum (rnd 3 (score e)))]]) g)"

definition extract_entities :: "backend \<Rightarrow> provider \<Rightarrow> string \<Rightarrow> json run" where
  "extract_entities be prov text =
     (if prov = OpenAI then
        ([ChatCompletion entities_system text],
         case chat be entities_system text of
           Inl e \<Rightarrow> Inl e
         | Inr None \<Rightarrow> Inl TypeError
         | Inr (Some content) \<Rightarrow>
             (case json_loads be content of
                Inr result \<Rightarrow> Inr (JObj [(''entities'', result)])
              | Inl e \<Rightarrow>
                  if e = JSONDecodeError
                  then Inr (JObj [(''entities'', JObj []),
                                  (''error'', JStr ''Failed to parse entity extraction result'')])
                  else Inl e))
      else
        ([NerPipeline text],
         case ner_pipeline be text of
           Inl e \<Rightarrow> Inl e
         | Inr entities \<Rightarrow>
             Inr (JObj [(''entities'',
                    JObj (map (\<lambda>(t, items). (t, JArr items))
                           (fold (group_entity (round_ner_score be)) entities [])))])))"

definition analyze_sentiment :: "backend \<Rightarrow> provider \<Rightarrow> string \<Rightarrow> json run" where
  "analyze_sentiment be prov text =
     (if prov = OpenAI then
        ([ChatCompletion sentiment_system text],
         case chat be sentiment_system text of
           Inl e \<Rightarrow> Inl e
         | Inr None \<Rightarrow> Inl TypeError
         | Inr (Some content) \<Rightarrow>
             (case json_loads be content of
                Inr result \<Rightarrow> Inr result
              | Inl e \<Rightarrow>
                  if e = JSONDecodeError
                  then Inr (JObj [(''sentiment'', JStr ''NEUTRAL''), (''score'', JNum (1 / 2)),
                                  (''error'', JStr ''Failed to parse sentiment analysis result'')])
                  else Inl e))
      else
        ([SentimentAnalyzer text],
         case sentiment_analyzer be text of
           Inl e \<Rightarrow> Inl e
         | Inr (label, sc) \<Rightarrow>
             Inr (JObj [(''sentiment'', JStr label), (''score'', JNum (round_sentiment_score be 3 sc))])))"

definition process_text :: "backend \<Rightarrow> provider \<Rightarrow> string \<Rightarrow> string \<Rightarrow> json run" where
  "process_text be prov text task =
     (if task = ''summarize'' then summarize_text be prov text
      else if task = ''entities'' then extract_entities be prov text
      else if task = ''sentiment'' then analyze_sentiment be prov text
      else ([], Inl (ValueError (''Unsupported task: '' @ task))))"

section \<open>storage.py: the in-memory result store\<close>

text \<open>
  One stored record, the dictionary built in \<^verbatim>\<open>save_result\<close>. The key \<^verbatim>\<open>"id"\<close> is the
  field \<open>result_id\<close> (\<open>id\<close> is the identity function of HOL). \<open>created_at\<close> is a
  \<^verbatim>\<open>datetime\<close>, counted in microseconds since 0001-01-01T00:00:00.
\<close>

record processed =
  result_id :: string
  original_text :: string
  processed_result :: json
  task_type :: string
  created_at :: int

text \<open>
  \<^verbatim>\<open>self.results\<close>: a dictionary from id to record, in insertion order. Assigning to a key
  that is already present replaces the value in place; a new key goes to the end.
\<close>

type_synonym storage = "(string \<times> processed) list"

definition init_storage :: storage where
  "init_storage = []"

text \<open>
  \<^verbatim>\<open>save_result\<close> reads \<^verbatim>\<open>uuid.uuid4()\<close> and \<^verbatim>\<open>datetime.now()\<close>; both readings are
  arguments here (\<open>uuid\<close>, \<open>now\<close>). It returns the record and the updated store.
\<close>

definition save_result ::
  "string \<Rightarrow> int \<Rightarrow> storage \<Rightarrow> string \<Rightarrow> json \<Rightarrow> string \<Rightarrow> processed \<times> storage" where
  "save_result uuid now results text presult task =
     (let result = \<lparr>result_id = uuid, original_text = text, processed_result = presult,
                     task_type = task, created_at = now\<rparr>
      in (result, AList.update uuid result results))"

definition get_all_results :: "storage \<Rightarrow> processed list" where
  "get_all_results results = map snd results"

definition get_result_by_id :: "storage \<Rightarrow> string \<Rightarrow> processed option" where
  "get_result_by_id results rid = map_of results rid"

section \<open>business\_logic.py: reports over the store\<close>

record stats =
  total_processed :: nat
  by_task_type :: "(string \<times> nat) list"
  average_text_length :: number

text \<open>One round of the counting loop of \<^verbatim>\<open>get_processing_stats\<close>.\<close>

definition count_task :: "processed \<Rightarrow> (string \<times> nat) list \<Rightarrow> (string \<times> nat) list" where
  "count_task result task_counts =
     (let task = task_type result;
          c = (if task \<notin> fst ` set task_counts then task_counts @ [(task, 0)] else task_counts)
      in AList.map_entry task (\<lambda>n. n + 1) c)"

definition get_processing_stats :: "float_ops \<Rightarrow> storage \<Rightarrow> exn + stats" where
  "get_processing_stats fl store =
     (let results = get_all_results store;
          task_counts = fold count_task results []
      in case (if results \<noteq> []
               then py_truediv fl (sum_list (map (\<lambda>r. int (length (original_text r))) results))
                      (int (length results))
               else Inr (PyInt 0)) of
           Inl e \<Rightarrow> Inl e
         | Inr avg_text_length \<Rightarrow>
             Inr \<lparr>total_processed = length results, by_task_type = task_counts,
                  average_text_length = py_round fl 2 avg_text_length\<rparr>)"

text \<open>
  \<^verbatim>\<open>timedelta(hours=h)\<close> raises \<^verbatim>\<open>OverflowError\<close> when its day count leaves
  \<open>\<plusminus>999999999\<close>; \<^verbatim>\<open>datetime - timedelta\<close> raises it when the result is not a date
  from 0001-01-01 to 9999-12-31 (3652059 days). Durations are in microseconds.
\<close>

definition timedelta_hours :: "int \<Rightarrow> exn + int" where
  "timedelta_hours h =
     (if - 999999999 \<le> h div 24 \<and> h div 24 \<le> 999999999 then Inr (h * 3600000000)
      else Inl OverflowError)"

definition datetime_sub :: "int \<Rightarrow> int \<Rightarrow> exn + int" where
  "datetime_sub t d =
     (if 0 \<le> t - d \<and> t - d < 3652059 * 86400000000 then Inr (t - d) else Inl OverflowError)"

text \<open>
  \<^verbatim>\<open>get_recent_activity\<close>; \<open>now\<close> is the reading of \<^verbatim>\<open>datetime.now()\<close>. The test
  \<^verbatim>\<open>isinstance(r["created_at"], datetime)\<close> holds for every record, since \<open>created_at\<close>
  is a \<^verbatim>\<open>datetime\<close> by its type here, as \<^verbatim>\<open>save_result\<close> makes it.
\<close>

definition get_recent_activity :: "int \<Rightarrow> storage \<Rightarrow> int \<Rightarrow> exn + processed list" where
  "get_recent_activity now store hours =
     (let results = get_all_results store
      in case timedelta_hours hours of
           Inl e \<Rightarrow> Inl e
         | Inr delta \<Rightarrow>
             (case datetime_sub now delta of
                Inl e \<Rightarrow> Inl e
              | Inr cutoff_time \<Rightarrow> Inr (filter (\<lambda>r. cutoff_time < created_at r) results)))"

text \<open>
  Keys of the distribution dictionary. A list or a dictionary is not hashable, and
  \<^verbatim>\<open>True\<close> and \<^verbatim>\<open>False\<close> are the same keys as \<^verbatim>\<open>1\<close> and \<^verbatim>\<open>0\<close>.
\<close>

fun hashable :: "json \<Rightarrow> bool" where
  "hashable (JArr xs) = False"
| "hashable (JObj kvs) = False"
| "hashable j = True"

fun key_norm :: "json \<Rightarrow> json" where
  "key_norm (JBool b) = JNum (if b then 1 else 0)"
| "key_norm j = j"

definition key_eq :: "json \<Rightarrow> json \<Rightarrow> bool" where
  "key_eq a b = (key_norm a = key_norm b)"

text \<open>\<^verbatim>\<open>d.get(key, default)\<close> on a value: only a dictionary has the method.\<close>

definition dict_get :: "json \<Rightarrow> string \<Rightarrow> json \<Rightarrow> exn + json" where
  "dict_get d key dflt =
     (case d of
        JObj kvs \<Rightarrow> (case map_of kvs key of Some v \<Rightarrow> Inr v | None \<Rightarrow> Inr dflt)
      | _ \<Rightarrow> Inl AttributeError)"

text \<open>One round of the counting loop of \<^verbatim>\<open>get_sentiment_distribution\<close>, after the lookup.\<close>

definition count_sentiment :: "json \<Rightarrow> (json \<times> nat) list \<Rightarrow> (json \<times> nat) list" where
  "count_sentiment sentiment distribution =
     (let d = (if key_norm sentiment \<notin> key_norm ` fst ` set distribution
               then distribution @ [(sentiment, 0)] else distribution)
      in map (\<lambda>(k, n). if key_eq k sentiment then (k, n + 1) else (k, n)) d)"

fun count_sentiments :: "processed list \<Rightarrow> (json \<times> nat) list \<Rightarrow> exn + (json \<times> nat) list" where
  "count_sentiments [] distribution = Inr distribution"
| "count_sentiments (result # rest) distribution =
     (case dict_get (processed_result result) ''sentiment'' (JStr ''UNKNOWN'') of
        Inl e \<Rightarrow> Inl e
      | Inr sentiment \<Rightarrow>
          if hashable sentiment then count_sentiments rest (count_sentiment sentiment distribution)
          else Inl TypeError)"

definition get_sentiment_distribution :: "storage \<Rightarrow> exn + (json \<times> nat) list" where
  "get_sentiment_distribution store =
     (let results = get_all_results store;
          sentiment_results = filter (\<lambda>r. task_type r = ''sentiment'') results
      in count_sentiments sentiment_results [])"

text \<open>\<^verbatim>\<open>distribution[k]\<close> for reading a count: the entry whose key equals \<open>k\<close>, if any.\<close>

definition lookup_count :: "(json \<times> nat) list \<Rightarrow> json \<Rightarrow> nat option" where
  "lookup_count distribution k = map_of (map (\<lambda>(k', n). (key_norm k', n)) distribution) (key_norm k)"

section \<open>main.py: the /process handler\<close>

text \<open>
  What the \<^verbatim>\<open>try\<close> block of the handler can raise: an exception of the provider, or the
  handler's own \<^verbatim>\<open>HTTPException(status_code=400)\<close> for a task outside the list. Both are
  caught by \<^verbatim>\<open>except Exception\<close> and raised again with status 500; the record
  \<open>HTTP500\<close> carries the caught exception in place of its rendered message. A request body
  that fails the \<^verbatim>\<open>TextRequest\<close> model never reaches the handler (status 422).
\<close>

datatype raised = Raised exn | HTTP400 string

datatype http_error = Validation422 | HTTP500 raised

text \<open>\<^verbatim>\<open>TextRequest\<close>: \<^verbatim>\<open>text: str = Field(..., min_length=1)\<close>.\<close>

definition TextRequest :: "string \<Rightarrow> http_error + string" where
  "TextRequest text = (if 1 \<le> length text then Inr text else Inl Validation422)"

text \<open>
  The handler of \<^verbatim>\<open>POST /process\<close>, named \<^verbatim>\<open>process_text\<close> in main.py. It returns the
  backend calls made, the response, and the store after the request. \<open>uuid\<close> and \<open>now\<close>
  are what \<^verbatim>\<open>save_result\<close> would read.
\<close>

definition process_text_handler ::
  "backend \<Rightarrow> provider \<Rightarrow> string \<Rightarrow> int \<Rightarrow> storage \<Rightarrow> string \<Rightarrow> string
     \<Rightarrow> backend_call list \<times> (http_error + processed) \<times> storage" where
  "process_text_handler be prov uuid now store text task =
     (case TextRequest text of
        Inl err \<Rightarrow> ([], Inl err, store)
      | Inr request_text \<Rightarrow>
          if task \<notin> set [''summarize'', ''entities'', ''sentiment'']
          then ([], Inl (HTTP500 (HTTP400 task)), store)
          else
            (case process_text be prov request_text task of
               (calls, Inl e) \<Rightarrow> (calls, Inl (HTTP500 (Raised e)), store)
             | (calls, Inr presult) \<Rightarrow>
                 (let (saved_result, store') =
                        save_result uuid now store request_text presult task
                  in (calls, Inr saved_result, store'))))"

section \<open>Stand-in backends and specification functions\<close>

text \<open>
  A backend that cannot be reached: every call raises, and no text is taken for JSON. Its
  pipelines never return a score; \<^verbatim>\<open>round\<close> is set to leave a score as it is, which is
  what it does to the scores of the stand-ins below (1/2, 3/4, 1/8: binary fractions of
  at most 3 decimal digits).
\<close>

definition offline_backend :: backend where
  "offline_backend =
     \<lparr>chat = (\<lambda>sys usr. Inl (BackendError ''connection refused'')),
      summarizer = (\<lambda>t. Inl (BackendError ''connection refused'')),
      ner_pipeline = (\<lambda>t. Inl (BackendError ''connection refused'')),
      sentiment_analyzer = (\<lambda>t. Inl (BackendError ''connection refused'')),
      round_ner_score = (\<lambda>n x. x),
      round_sentiment_score = (\<lambda>n x. x),
      json_loads = (\<lambda>s. Inl JSONDecodeError)\<rparr>"

text \<open>
  A remote backend that answers every request with the same content, on which
  \<^verbatim>\<open>json.loads\<close> has the outcome \<open>decoded\<close>.
\<close>

definition canned_chat :: "string \<Rightarrow> exn + json \<Rightarrow> backend" where
  "canned_chat content decoded =
     offline_backend\<lparr>chat := (\<lambda>sys usr. Inr (Some content)),
                     json_loads := (\<lambda>s. if s = content then decoded else Inl JSONDecodeError)\<rparr>"

text \<open>A local backend whose NER pipeline tags every text with the same mentions.\<close>

definition canned_ner :: "raw_entity list \<Rightarrow> backend" where
  "canned_ner mentions = offline_backend\<lparr>ner_pipeline := (\<lambda>t. Inr mentions)\<rparr>"

text \<open>
  Grouping as the specification words it: the entity types in the order of their first
  mention, each with its mentions in order, as text and confidence, the confidence being
  what \<^verbatim>\<open>round(score, 3)\<close> returns (\<open>rnd 3\<close>).
\<close>

definition first_seen :: "'a list \<Rightarrow> 'a list" where
  "first_seen xs = rev (remdups (rev xs))"

definition mention :: "(nat \<Rightarrow> rat \<Rightarrow> rat) \<Rightarrow> raw_entity \<Rightarrow> json" where
  "mention rnd e = JObj [(''word'', JStr (word e)), (''score'', JNum (rnd 3 (score e)))]"

definition grouped_by_type ::
  "(nat \<Rightarrow> rat \<Rightarrow> rat) \<Rightarrow> raw_entity list \<Rightarrow> (string \<times> json list) list" where
  "grouped_by_type rnd mentions =
     map (\<lambda>t. (t, map (mention rnd) (filter (\<lambda>e. entity e = t) mentions)))
       (first_seen (map entity mentions))"

definition entities_by_type :: "(nat \<Rightarrow> rat \<Rightarrow> rat) \<Rightarrow> raw_entity list \<Rightarrow> json" where
  "entities_by_type rnd mentions =
     JObj [(''entities'',
            JObj (map (\<lambda>(t, items). (t, JArr items)) (grouped_by_type rnd mentions)))]"

text \<open>A number with at most 3 decimal digits, and the numbers that occur in a value.\<close>

definition three_decimals :: "rat \<Rightarrow> bool" where
  "three_decimals q = (of_int \<lfloor>q * 1000\<rfloor> = q * 1000)"

fun numbers :: "json \<Rightarrow> rat list" where
  "numbers (JNum q) = [q]"
| "numbers (JArr xs) = concat (map numbers xs)"
| "numbers (JObj kvs) = concat (map (\<lambda>kv. numbers (snd kv)) kvs)"
| "numbers j = []"

text \<open>The label that \<^verbatim>\<open>get_sentiment_distribution\<close> reads from a record with a dictionary.\<close>

definition sentiment_label :: "processed \<Rightarrow> json" where
  "sentiment_label r =
     (case processed_result r of
        JObj kvs \<Rightarrow> (case map_of kvs ''sentiment'' of Some v \<Rightarrow> v | None \<Rightarrow> JStr ''UNKNOWN'')
      | _ \<Rightarrow> JNull)"

definition countable_label :: "processed \<Rightarrow> bool" where
  "countable_label r =
     (case processed_result r of JObj kvs \<Rightarrow> hashable (sentiment_label r) | _ \<Rightarrow> False)"

text \<open>How many sentiment records of the store carry a label equal to \<open>label\<close>.\<close>

definition labelled :: "json \<Rightarrow> storage \<Rightarrow> nat" where
  "labelled label store =
     length (filter (\<lambda>r. task_type r = ''sentiment'' \<and> key_eq (sentiment_label r) label)
               (get_all_results store))"

text \<open>
  A store after four requests: two sentiment results labelled POSITIVE, one sentiment
  result without a label, and one summary.
\<close>

definition sample_store :: storage where
  "sample_store =
     [(''id-1'', \<lparr>result_id = ''id-1'', original_text = ''I love it'',
                  processed_result = JObj [(''sentiment'', JStr ''POSITIVE''), (''score'', JNum (3 / 4))],
                  task_type = ''sentiment'', created_at = 63900000000000000\<rparr>),
      (''id-2'', \<lparr>result_id = ''id-2'', original_text = ''hm'',
                  processed_result = JObj [(''score'', JNum (1 / 2))],
                  task_type = ''sentiment'', created_at = 63900000000000001\<rparr>),
      (''id-3'', \<lparr>result_id = ''id-3'', original_text = ''a text'',
                  processed_result = JObj [(''summary'', JStr ''a text'')],
                  task_type = ''summarize'', created_at = 63900000000000002\<rparr>),
      (''id-4'', \<lparr>result_id = ''id-4'', original_text = ''great'',
                  processed_result = JObj [(''sentiment'', JStr ''POSITIVE'')],
                  task_type = ''sentiment'', created_at = 63900000000000003\<rparr>)]"

section \<open>Properties of the store\<close>

text \<open>
  C9: for every store state and all inputs, \<open>save_result\<close> followed by
  \<open>get_result_by_id\<close> with the id of the returned record yields that very record. This
  holds for every id the generator may produce, also one that is already in the store.
\<close>

theorem save_then_get_by_id:
  "get_result_by_id (snd (save_result uuid now results text presult task))
     (result_id (fst (save_result uuid now results text presult task)))
   = Some (fst (save_result uuid now results text presult task))"
  by (simp add: save_result_def get_result_by_id_def Let_def update_conv')

section \<open>Properties of the provider\<close>

lemma py_split_example: "py_split ''  two   words '' = [''two'', ''words'']"
  by (simp add: py_split_def is_space_def)

text \<open>
  C3: for either provider variant and every text with fewer than 30 whitespace-separated
  words, \<open>summarize_text\<close> makes no backend call and returns the text unchanged as
  \<open>summary\<close>, together with the explanatory \<open>note\<close>.
\<close>

theorem summarize_short_text:
  "length (py_split text) < 30 \<Longrightarrow>
   summarize_text be prov text =
     ([], Inr (JObj [(''summary'', JStr text),
                     (''note'', JStr ''Text too short for meaningful summarization'')]))"
  by (simp add: summarize_text_def)

theorem summarize_short_text_witness:
  "length (py_split ''a short text'') < 30 \<and>
   summarize_text offline_backend OpenAI ''a short text'' =
     ([], Inr (JObj [(''summary'', JStr ''a short text''),
                     (''note'', JStr ''Text too short for meaningful summarization'')])) \<and>
   summarize_text offline_backend HuggingFace ''a short text'' =
     ([], Inr (JObj [(''summary'', JStr ''a short text''),
                     (''note'', JStr ''Text too short for meaningful summarization'')]))"
proof -
  have short: "length (py_split ''a short text'') < 30"
    by (simp add: py_split_def is_space_def)
  show ?thesis
    using short summarize_short_text [OF short, of offline_backend OpenAI]
      summarize_short_text [OF short, of offline_backend HuggingFace]
    by simp
qed

lemma summarize_long_text_calls_backend:
  "30 \<le> length (py_split text) \<Longrightarrow>
   fst (summarize_text be prov text) =
     (if prov = OpenAI then [ChatCompletion summarize_system (summarize_user text)]
      else [Summarizer text])"
  by (simp add: summarize_text_def)

text \<open>
  C8: for every text and every task name other than summarize, entities and sentiment,
  \<open>process_text\<close> raises \<^verbatim>\<open>ValueError\<close>: it calls no backend and returns no result.
\<close>

theorem process_text_unknown_task:
  "task \<notin> {''summarize'', ''entities'', ''sentiment''} \<Longrightarrow>
   process_text be prov text task = ([], Inl (ValueError (''Unsupported task: '' @ task)))"
  by (simp add: process_text_def)

theorem process_text_unknown_task_witness:
  "''translate'' \<notin> {''summarize'', ''entities'', ''sentiment''} \<and>
   process_text offline_backend HuggingFace ''some text'' ''translate'' =
     ([], Inl (ValueError ''Unsupported task: translate''))"
proof -
  have unknown: "''translate'' \<notin> {''summarize'', ''entities'', ''sentiment''}"
    by simp
  show ?thesis
    using unknown
      process_text_unknown_task [OF unknown, of offline_backend HuggingFace "''some text''"]
    by simp
qed

text \<open>
  C4, as the specification states it, fails on the code. An answer that is JSON of another
  shape than the expected one, here the empty object, is returned as decoded, with no
  sentiment, score or error field; and an answer without content makes \<^verbatim>\<open>json.loads\<close>
  raise \<^verbatim>\<open>TypeError\<close>, which the handler of \<^verbatim>\<open>JSONDecodeError\<close> does not catch.
\<close>

theorem sentiment_other_shape_passed_on:
  "analyze_sentiment (canned_chat ''{}'' (Inr (JObj []))) OpenAI ''great film'' =
     ([ChatCompletion sentiment_system ''great film''], Inr (JObj [])) \<and>
   analyze_sentiment (offline_backend\<lparr>chat := (\<lambda>sys usr. Inr None)\<rparr>) OpenAI ''great film'' =
     ([ChatCompletion sentiment_system ''great film''], Inl TypeError)"
  by (simp add: analyze_sentiment_def canned_chat_def offline_backend_def)

text \<open>
  C4, amended: whenever the remote backend answers with content that \<^verbatim>\<open>json.loads\<close>
  rejects with \<^verbatim>\<open>JSONDecodeError\<close>, \<open>analyze_sentiment\<close> of the openai variant does not
  raise and returns the sentiment NEUTRAL with score 0.5 and an error field; and whenever
  \<^verbatim>\<open>json.loads\<close> decodes the content, the decoded value is returned as it is, whatever
  its shape.
\<close>

theorem sentiment_fallback_on_undecodable:
  "(chat be sentiment_system text = Inr (Some content) \<and>
    json_loads be content = Inl JSONDecodeError \<longrightarrow>
      analyze_sentiment be OpenAI text =
        ([ChatCompletion sentiment_system text],
         Inr (JObj [(''sentiment'', JStr ''NEUTRAL''), (''score'', JNum (1 / 2)),
                    (''error'', JStr ''Failed to parse sentiment analysis result'')]))) \<and>
   (chat be sentiment_system text = Inr (Some content) \<and> json_loads be content = Inr decoded \<longrightarrow>
      analyze_sentiment be OpenAI text = ([ChatCompletion sentiment_system text], Inr decoded))"
  by (simp add: analyze_sentiment_def)

theorem sentiment_fallback_on_undecodable_witness:
  \<open>analyze_sentiment (canned_chat ''I think it is positive'' (Inl JSONDecodeError))
     OpenAI ''great film'' =
     ([ChatCompletion sentiment_system ''great film''],
      Inr (JObj [(''sentiment'', JStr ''NEUTRAL''), (''score'', JNum (1 / 2)),
                 (''error'', JStr ''Failed to parse sentiment analysis result'')])) \<and>
   analyze_sentiment
     (canned_chat ''{"sentiment": "POSITIVE", "score": 0.75}''
        (Inr (JObj [(''sentiment'', JStr ''POSITIVE''), (''score'', JNum (3 / 4))])))
     OpenAI ''great film'' =
     ([ChatCompletion sentiment_system ''great film''],
      Inr (JObj [(''sentiment'', JStr ''POSITIVE''), (''score'', JNum (3 / 4))]))\<close>
proof -
  let ?undecodable = "canned_chat ''I think it is positive'' (Inl JSONDecodeError)"
  let ?decoded = "JObj [(''sentiment'', JStr ''POSITIVE''), (''score'', JNum (3 / 4))]"
  let ?decodable = \<open>canned_chat ''{"sentiment": "POSITIVE", "score": 0.75}'' (Inr ?decoded)\<close>
  have rejected: "chat ?undecodable sentiment_system ''great film''
      = Inr (Some ''I think it is positive'') \<and>
    json_loads ?undecodable ''I think it is positive'' = Inl JSONDecodeError"
    by (simp add: canned_chat_def)
  have accepted: \<open>chat ?decodable sentiment_system ''great film''
      = Inr (Some ''{"sentiment": "POSITIVE", "score": 0.75}'') \<and>
    json_loads ?decodable ''{"sentiment": "POSITIVE", "score": 0.75}'' = Inr ?decoded\<close>
    by (simp add: canned_chat_def)
  show ?thesis
    using rejected accepted
      sentiment_fallback_on_undecodable
        [of ?undecodable "''great film''" "''I think it is positive''"]
      sentiment_fallback_on_undecodable
        [of ?decodable "''great film''" \<open>''{"sentiment": "POSITIVE", "score": 0.75}''\<close>
          ?decoded]
    by blast
qed

subsection \<open>Entity extraction\<close>

text \<open>The grouping loop computes the grouping of the specification.\<close>

lemma first_seen_snoc:
  "first_seen (xs @ [x]) = (if x \<in> set xs then first_seen xs else first_seen xs @ [x])"
  by (simp add: first_seen_def)

lemma set_first_seen: "set (first_seen xs) = set xs"
  by (simp add: first_seen_def)

lemma distinct_first_seen: "distinct (first_seen xs)"
  by (simp add: first_seen_def)

lemma map_entry_tabulate:
  "distinct ks \<Longrightarrow>
   AList.map_entry t g (map (\<lambda>k. (k, f k)) ks) = map (\<lambda>k. (k, if k = t then g (f k) else f k)) ks"
  by (induction ks) auto

lemma group_entity_snoc:
  "group_entity rnd e (grouped_by_type rnd ms) = grouped_by_type rnd (ms @ [e])"
proof (cases "entity e \<in> set (map entity ms)")
  case True
  then have "entity e \<in> fst ` set (grouped_by_type rnd ms)"
    by (force simp: grouped_by_type_def set_first_seen)
  then have "group_entity rnd e (grouped_by_type rnd ms) =
      AList.map_entry (entity e) (\<lambda>items. items @ [mention rnd e]) (grouped_by_type rnd ms)"
    by (simp add: group_entity_def mention_def Let_def)
  also have "\<dots> = grouped_by_type rnd (ms @ [e])"
    using True
    by (simp add: grouped_by_type_def map_entry_tabulate distinct_first_seen first_seen_snoc)
  finally show ?thesis .
next
  case False
  then have notin: "entity e \<notin> fst ` set (grouped_by_type rnd ms)"
    by (force simp: grouped_by_type_def set_first_seen)
  have none: "filter (\<lambda>x. entity x = entity e) ms = []"
    using False by (auto simp: filter_empty_conv image_iff)
  have ext: "grouped_by_type rnd ms @ [(entity e, [])] =
      map (\<lambda>t. (t, map (mention rnd) (filter (\<lambda>x. entity x = t) ms)))
        (first_seen (map entity ms) @ [entity e])"
    by (simp add: grouped_by_type_def none)
  have dist: "distinct (first_seen (map entity ms) @ [entity e])"
    using False by (simp add: distinct_first_seen set_first_seen)
  have "group_entity rnd e (grouped_by_type rnd ms) =
      AList.map_entry (entity e) (\<lambda>items. items @ [mention rnd e])
        (grouped_by_type rnd ms @ [(entity e, [])])"
    using notin by (simp add: group_entity_def mention_def Let_def)
  also have "\<dots> = grouped_by_type rnd (ms @ [e])"
    using False unfolding ext map_entry_tabulate [OF dist]
    by (simp add: grouped_by_type_def first_seen_snoc)
  finally show ?thesis .
qed

lemma fold_group_entity: "fold (group_entity rnd) ms [] = grouped_by_type rnd ms"
proof (induction ms rule: rev_induct)
  case Nil
  show ?case by (simp add: grouped_by_type_def first_seen_def)
next
  case (snoc e ms)
  then show ?case by (simp add: group_entity_snoc)
qed

lemma numbers_entities_by_type:
  "set (numbers (entities_by_type rnd ms)) = (\<lambda>e. rnd 3 (score e)) ` set ms"
proof
  show "set (numbers (entities_by_type rnd ms)) \<subseteq> (\<lambda>e. rnd 3 (score e)) ` set ms"
    by (auto simp: entities_by_type_def grouped_by_type_def mention_def)
  show "(\<lambda>e. rnd 3 (score e)) ` set ms \<subseteq> set (numbers (entities_by_type rnd ms))"
  proof
    fix q
    assume "q \<in> (\<lambda>e. rnd 3 (score e)) ` set ms"
    then obtain e where e: "e \<in> set ms" and q: "q = rnd 3 (score e)"
      by auto
    let ?items = "map (mention rnd) (filter (\<lambda>x. entity x = entity e) ms)"
    have "(entity e, ?items) \<in> set (grouped_by_type rnd ms)"
      using e by (auto simp: grouped_by_type_def set_first_seen)
    moreover have "q \<in> set (numbers (JArr ?items))"
      using e q by (auto simp: mention_def)
    ultimately show "q \<in> set (numbers (entities_by_type rnd ms))"
      by (force simp: entities_by_type_def)
  qed
qed

lemma off_three_decimals: "(1 / 2000 :: rat) \<le> \<bar>15 / 16 - of_int k / 1000\<bar>"
proof (cases "k \<le> 937")
  case True
  then have "(of_int k :: rat) \<le> 937"
    by (metis of_int_le_iff of_int_numeral)
  then show ?thesis by simp
next
  case False
  then have "938 \<le> k" by simp
  then have "(938 :: rat) \<le> of_int k"
    by (metis of_int_le_iff of_int_numeral)
  then show ?thesis by simp
qed

text \<open>
  C1, as the specification states it, fails on the openai variant, which neither groups
  nor rounds: the decoded answer is returned under \<open>entities\<close> as it is. Here the answer
  lists mentions of two types under one key, one with the confidence 0.9375 (a binary
  fraction, so the float is exactly that number). It has four decimal digits and lies
  1/2000 from the nearest numbers of three, far more than a float lies from the number
  it stands for.
\<close>

theorem openai_entities_passed_on:
  \<open>extract_entities
     (canned_chat
        ''{"entities": [{"text": "Ada", "type": "PERSON", "confidence": 0.9375}, {"text": "London", "type": "LOCATION", "confidence": 0.5}]}''
        (Inr (JObj [(''entities'',
                JArr [JObj [(''text'', JStr ''Ada''), (''type'', JStr ''PERSON''),
                            (''confidence'', JNum (15 / 16))],
                      JObj [(''text'', JStr ''London''), (''type'', JStr ''LOCATION''),
                            (''confidence'', JNum (1 / 2))]])])))
     OpenAI ''Ada lived in London'' =
     ([ChatCompletion entities_system ''Ada lived in London''],
      Inr (JObj [(''entities'',
             JObj [(''entities'',
                JArr [JObj [(''text'', JStr ''Ada''), (''type'', JStr ''PERSON''),
                            (''confidence'', JNum (15 / 16))],
                      JObj [(''text'', JStr ''London''), (''type'', JStr ''LOCATION''),
                            (''confidence'', JNum (1 / 2))]])])])) \<and>
   \<not> list_all three_decimals
       (numbers (JObj [(''entities'',
             JObj [(''entities'',
                JArr [JObj [(''text'', JStr ''Ada''), (''type'', JStr ''PERSON''),
                            (''confidence'', JNum (15 / 16))],
                      JObj [(''text'', JStr ''London''), (''type'', JStr ''LOCATION''),
                            (''confidence'', JNum (1 / 2))]])])])) \<and>
   (\<forall>k::int. (1 / 2000 :: rat) \<le> \<bar>15 / 16 - of_int k / 1000\<bar>)\<close>
proof -
  have "\<not> three_decimals (15 / 16)"
    by code_simp
  then show ?thesis
    using off_three_decimals
    by (simp add: extract_entities_def canned_chat_def offline_backend_def)
qed

text \<open>
  C1, amended: on the huggingface variant, for every text that the NER pipeline tags,
  \<open>extract_entities\<close> returns under \<open>entities\<close> the raw mentions grouped by entity
  type (types in the order of their first mention, the mentions of a type in their order),
  each with the confidence that \<^verbatim>\<open>round(score, 3)\<close> returns for its score, and these are
  the only numbers in the result. On the openai variant the value of \<open>entities\<close> is
  whatever JSON the answer decodes to.
\<close>

theorem entities_grouped_or_passed_on:
  "(ner_pipeline be text = Inr mentions \<longrightarrow>
      extract_entities be HuggingFace text =
        ([NerPipeline text], Inr (entities_by_type (round_ner_score be) mentions)) \<and>
      set (numbers (entities_by_type (round_ner_score be) mentions)) =
        (\<lambda>e. round_ner_score be 3 (score e)) ` set mentions) \<and>
   (chat be entities_system text = Inr (Some content) \<and> json_loads be content = Inr decoded \<longrightarrow>
      extract_entities be OpenAI text =
        ([ChatCompletion entities_system text], Inr (JObj [(''entities'', decoded)])))"
  by (simp add: extract_entities_def fold_group_entity entities_by_type_def [symmetric]
      numbers_entities_by_type)

theorem entities_grouped_or_passed_on_witness:
  \<open>extract_entities
     (canned_ner [\<lparr>entity = ''B-PER'', word = ''Ada'', score = 3 / 4\<rparr>,
                  \<lparr>entity = ''B-LOC'', word = ''London'', score = 1 / 8\<rparr>,
                  \<lparr>entity = ''B-PER'', word = ''Alan'', score = 1 / 2\<rparr>])
     HuggingFace ''Ada and Alan met in London'' =
     ([NerPipeline ''Ada and Alan met in London''],
      Inr (JObj [(''entities'',
        JObj [(''B-PER'', JArr [JObj [(''word'', JStr ''Ada''), (''score'', JNum (3 / 4))],
                                JObj [(''word'', JStr ''Alan''), (''score'', JNum (1 / 2))]]),
              (''B-LOC'', JArr [JObj [(''word'', JStr ''London''), (''score'', JNum (1 / 8))]])])])) \<and>
   extract_entities (canned_chat ''{"PERSON": ["Ada"]}'' (Inr (JObj [(''PERSON'', JArr [JStr ''Ada''])])))
     OpenAI ''Ada wrote the first program'' =
     ([ChatCompletion entities_system ''Ada wrote the first program''],
      Inr (JObj [(''entities'', JObj [(''PERSON'', JArr [JStr ''Ada''])])]))\<close>
proof -
  let ?ms = "[\<lparr>entity = ''B-PER'', word = ''Ada'', score = 3 / 4\<rparr>,
              \<lparr>entity = ''B-LOC'', word = ''London'', score = 1 / 8\<rparr>,
              \<lparr>entity = ''B-PER'', word = ''Alan'', score = 1 / 2\<rparr>]"
  let ?decoded = "JObj [(''PERSON'', JArr [JStr ''Ada''])]"
  let ?remote = \<open>canned_chat ''{"PERSON": ["Ada"]}'' (Inr ?decoded)\<close>
  have tagged: "ner_pipeline (canned_ner ?ms) ''Ada and Alan met in London'' = Inr ?ms"
    by (simp add: canned_ner_def)
  have grouped: "entities_by_type (round_ner_score (canned_ner ?ms)) ?ms =
      JObj [(''entities'',
        JObj [(''B-PER'', JArr [JObj [(''word'', JStr ''Ada''), (''score'', JNum (3 / 4))],
                                JObj [(''word'', JStr ''Alan''), (''score'', JNum (1 / 2))]]),
              (''B-LOC'', JArr [JObj [(''word'', JStr ''London''), (''score'', JNum (1 / 8))]])])]"
    by code_simp
  have answered: \<open>chat ?remote entities_system ''Ada wrote the first program''
      = Inr (Some ''{"PERSON": ["Ada"]}'') \<and>
    json_loads ?remote ''{"PERSON": ["Ada"]}'' = Inr ?decoded\<close>
    by (simp add: canned_chat_def)
  show ?thesis
    using tagged answered
      entities_grouped_or_passed_on [of "canned_ner ?ms" "''Ada and Alan met in London''" ?ms]
      entities_grouped_or_passed_on [of ?remote "''Ada wrote the first program''" _
        \<open>''{"PERSON": ["Ada"]}''\<close> ?decoded]
    unfolding grouped by blast
qed

section \<open>Properties of the handler\<close>

text \<open>
  C5: for every task (summarize, entities or sentiment, and any other string), provider
  and store, a request to process the empty text fails at once with the validation error
  of the request model \<^verbatim>\<open>TextRequest\<close> (\<^verbatim>\<open>min_length=1\<close>): no backend is called, no result
  is produced and nothing is saved.
\<close>

theorem empty_text_rejected_by_request_model:
  "process_text_handler be prov uuid now store '''' task = ([], Inl Validation422, store)"
  by (simp add: process_text_handler_def TextRequest_def)

text \<open>
  C10: if the provider raises while processing a request, whatever the exception (an
  unsupported task name included), the /process handler answers with an error and the
  store after the request is the store before it.
\<close>

theorem failed_request_saves_nothing:
  assumes "snd (process_text be prov text task) = Inl e"
  shows "snd (snd (process_text_handler be prov uuid now store text task)) = store \<and>
         (\<exists>err. fst (snd (process_text_handler be prov uuid now store text task)) = Inl err)"
  using assms
  by (cases "process_text be prov text task")
     (auto simp: process_text_handler_def TextRequest_def split: sum.splits if_splits)

theorem failed_request_saves_nothing_witness:
  "snd (process_text offline_backend HuggingFace ''some text'' ''entities'')
     = Inl (BackendError ''connection refused'') \<and>
   snd (snd (process_text_handler offline_backend HuggingFace ''id-2'' 7
     [(''id-1'', \<lparr>result_id = ''id-1'', original_text = ''hi'', processed_result = JObj [],
                  task_type = ''summarize'', created_at = 3\<rparr>)] ''some text'' ''entities''))
     = [(''id-1'', \<lparr>result_id = ''id-1'', original_text = ''hi'', processed_result = JObj [],
                     task_type = ''summarize'', created_at = 3\<rparr>)]"
proof -
  have raised: "snd (process_text offline_backend HuggingFace ''some text'' ''entities'')
      = Inl (BackendError ''connection refused'')"
    by (simp add: process_text_def extract_entities_def offline_backend_def)
  show ?thesis
    using raised failed_request_saves_nothing [OF raised]
    by simp
qed

section \<open>Properties of the reports\<close>

text \<open>
  C7: on the empty store \<open>get_processing_stats\<close> returns a total of 0 and an average
  length of 0 (the integer: nothing is divided); and on every store it returns statistics,
  so the division, which is guarded by the test for a non-empty store, never fails on a
  zero divisor. This holds whatever the floating point operations compute.
\<close>

theorem stats_of_empty_store:
  "get_processing_stats fl init_storage =
     Inr \<lparr>total_processed = 0, by_task_type = [], average_text_length = PyInt 0\<rparr> \<and>
   (\<forall>store. \<exists>s. get_processing_stats fl store = Inr s)"
  by (simp add: get_processing_stats_def init_storage_def get_all_results_def py_truediv_def
      py_round_def Let_def)

text \<open>
  C6, as the specification states it, fails on the code: with \<open>hours = 0\<close> a record whose
  timestamp lies ahead of the clock reading of the query (the wall clock was set back in
  between) is returned, so the result is not empty; and a window too large for a
  \<^verbatim>\<open>datetime\<close> raises instead of returning.
\<close>

theorem recent_activity_after_clock_step:
  "get_recent_activity 63900000000000000
     [(''id-1'', \<lparr>result_id = ''id-1'', original_text = ''hi'', processed_result = JObj [],
                  task_type = ''summarize'', created_at = 63900003600000000\<rparr>)] 0
   = Inr [\<lparr>result_id = ''id-1'', original_text = ''hi'', processed_result = JObj [],
            task_type = ''summarize'', created_at = 63900003600000000\<rparr>] \<and>
   get_recent_activity 63900000000000000 [] 1000000000000 = Inl OverflowError"
  by (simp add: get_recent_activity_def timedelta_hours_def datetime_sub_def get_all_results_def)

text \<open>
  C6, amended: for every store, every clock reading \<open>now\<close> that is a \<^verbatim>\<open>datetime\<close> and
  every \<open>hours\<close> for which \<open>now - hours\<close> is one too, \<open>get_recent_activity\<close> returns
  exactly the records created strictly after \<open>now - hours\<close>, in the order of the store;
  for \<open>hours = 0\<close> that is the empty list when no record is stamped later than \<open>now\<close>.
\<close>

theorem recent_activity_window:
  assumes "0 \<le> now" and "now < 3652059 * 86400000000"
    and "0 \<le> now - hours * 3600000000" and "now - hours * 3600000000 < 3652059 * 86400000000"
  shows "get_recent_activity now store hours =
           Inr (filter (\<lambda>r. now - hours * 3600000000 < created_at r) (get_all_results store)) \<and>
         (hours = 0 \<and> (\<forall>r \<in> set (get_all_results store). created_at r \<le> now)
            \<longrightarrow> get_recent_activity now store hours = Inr [])"
proof -
  have "- 999999999 \<le> hours div 24 \<and> hours div 24 \<le> 999999999"
    using assms by linarith
  then have td: "timedelta_hours hours = Inr (hours * 3600000000)"
    by (simp add: timedelta_hours_def)
  have sub: "datetime_sub now (hours * 3600000000) = Inr (now - hours * 3600000000)"
    using assms by (simp add: datetime_sub_def)
  have main: "get_recent_activity now store hours =
      Inr (filter (\<lambda>r. now - hours * 3600000000 < created_at r) (get_all_results store))"
    by (simp add: get_recent_activity_def td sub)
  have "get_recent_activity now store hours = Inr []"
    if "hours = 0" and "\<forall>r \<in> set (get_all_results store). created_at r \<le> now"
    using that main by (simp add: filter_empty_conv not_less)
  with main show ?thesis by blast
qed

theorem recent_activity_window_witness:
  "get_recent_activity 63900086400000000
     [(''id-1'', \<lparr>result_id = ''id-1'', original_text = ''old'', processed_result = JObj [],
                  task_type = ''summarize'', created_at = 63899978400000000\<rparr>),
      (''id-2'', \<lparr>result_id = ''id-2'', original_text = ''new'', processed_result = JObj [],
                  task_type = ''entities'', created_at = 63900079200000000\<rparr>)] 24
   = Inr [\<lparr>result_id = ''id-2'', original_text = ''new'', processed_result = JObj [],
            task_type = ''entities'', created_at = 63900079200000000\<rparr>] \<and>
   get_recent_activity 63900086400000000
     [(''id-1'', \<lparr>result_id = ''id-1'', original_text = ''old'', processed_result = JObj [],
                  task_type = ''summarize'', created_at = 63899978400000000\<rparr>),
      (''id-2'', \<lparr>result_id = ''id-2'', original_text = ''new'', processed_result = JObj [],
                  task_type = ''entities'', created_at = 63900079200000000\<rparr>)] 0
   = Inr []"
  using recent_activity_window [of 63900086400000000 24
      "[(''id-1'', \<lparr>result_id = ''id-1'', original_text = ''old'', processed_result = JObj [],
                    task_type = ''summarize'', created_at = 63899978400000000\<rparr>),
        (''id-2'', \<lparr>result_id = ''id-2'', original_text = ''new'', processed_result = JObj [],
                    task_type = ''entities'', created_at = 63900079200000000\<rparr>)]"]
    recent_activity_window [of 63900086400000000 0
      "[(''id-1'', \<lparr>result_id = ''id-1'', original_text = ''old'', processed_result = JObj [],
                    task_type = ''summarize'', created_at = 63899978400000000\<rparr>),
        (''id-2'', \<lparr>result_id = ''id-2'', original_text = ''new'', processed_result = JObj [],
                    task_type = ''entities'', created_at = 63900079200000000\<rparr>)]"]
  by (simp add: get_all_results_def)

subsection \<open>The sentiment distribution\<close>

text \<open>
  What the counting loop does to the count of one key, to the keys and to the sum of the
  counts.
\<close>

lemma lookup_count_bumped:
  "lookup_count (map (\<lambda>(k, n). if key_eq k s then (k, n + 1) else (k, n)) d) x =
     map_option (\<lambda>n. if key_eq s x then n + 1 else n) (lookup_count d x)"
  by (induction d) (auto simp: lookup_count_def key_eq_def)

lemma lookup_count_None: "lookup_count d x = None \<longleftrightarrow> key_norm x \<notin> key_norm ` fst ` set d"
  by (force simp: lookup_count_def map_of_eq_None_iff image_iff)

lemma lookup_count_new_key:
  "lookup_count (d @ [(s, 0)]) x =
     (case lookup_count d x of Some n \<Rightarrow> Some n | None \<Rightarrow> if key_eq s x then Some 0 else None)"
  by (auto simp: lookup_count_def key_eq_def map_add_def split: option.splits)

lemma lookup_count_count_sentiment:
  "lookup_count (count_sentiment s d) x =
     (if key_eq s x then Some ((case lookup_count d x of None \<Rightarrow> 0 | Some n \<Rightarrow> n) + 1)
      else lookup_count d x)"
proof (cases "key_norm s \<in> key_norm ` fst ` set d")
  case True
  then have "lookup_count d s \<noteq> None"
    by (simp add: lookup_count_None)
  moreover have "key_eq s x \<Longrightarrow> lookup_count d x = lookup_count d s"
    by (simp add: lookup_count_def key_eq_def)
  ultimately show ?thesis
    using True by (auto simp: count_sentiment_def lookup_count_bumped option.map_ident)
next
  case False
  then have none: "lookup_count d s = None"
    by (simp add: lookup_count_None)
  have same: "key_eq s x \<Longrightarrow> lookup_count d x = lookup_count d s"
    by (simp add: lookup_count_def key_eq_def)
  have "count_sentiment s d =
      map (\<lambda>(k, n). if key_eq k s then (k, n + 1) else (k, n)) (d @ [(s, 0)])"
    using False by (simp add: count_sentiment_def)
  then have "lookup_count (count_sentiment s d) x =
      map_option (\<lambda>n. if key_eq s x then n + 1 else n) (lookup_count (d @ [(s, 0)]) x)"
    by (simp only: lookup_count_bumped)
  then show ?thesis
    using none same
    by (auto simp: lookup_count_new_key option.map_ident split: option.splits)
qed

lemma dict_get_sentiment:
  "dict_get (processed_result r) ''sentiment'' (JStr ''UNKNOWN'') =
     (case processed_result r of JObj kvs \<Rightarrow> Inr (sentiment_label r) | _ \<Rightarrow> Inl AttributeError)"
  by (simp add: dict_get_def sentiment_label_def split: json.splits option.splits)

lemma count_sentiments_Cons:
  "count_sentiments (r # rs) d = Inr d' \<Longrightarrow>
   count_sentiments rs (count_sentiment (sentiment_label r) d) = Inr d'"
  by (auto simp: dict_get_sentiment split: json.splits if_splits)

lemma count_sentiments_lookup:
  "count_sentiments rs d = Inr d' \<Longrightarrow>
   lookup_count d' x =
     (if filter (\<lambda>r. key_eq (sentiment_label r) x) rs = [] then lookup_count d x
      else Some ((case lookup_count d x of None \<Rightarrow> 0 | Some n \<Rightarrow> n)
                 + length (filter (\<lambda>r. key_eq (sentiment_label r) x) rs)))"
proof (induction rs arbitrary: d)
  case Nil
  then show ?case by simp
next
  case (Cons r rs)
  from Cons.prems have rest:
    "count_sentiments rs (count_sentiment (sentiment_label r) d) = Inr d'"
    by (rule count_sentiments_Cons)
  show ?case
    unfolding Cons.IH [OF rest]
    by (simp add: lookup_count_count_sentiment)
qed

lemma key_eq_refl: "key_eq s s"
  by (simp add: key_eq_def)

lemma sum_bumped:
  fixes d :: "(json \<times> nat) list"
  assumes "distinct (map (\<lambda>kv. key_norm (fst kv)) d)"
  shows "sum_list (map (\<lambda>kv. snd (case kv of (k, n) \<Rightarrow> if key_eq k s then (k, n + 1) else (k, n))) d) =
     sum_list (map snd d) + (if key_norm s \<in> key_norm ` fst ` set d then 1 else 0)"
  using assms
proof (induction d)
  case Nil
  then show ?case by simp
next
  case (Cons kv d)
  obtain k n where kv: "kv = (k, n)" by (cases kv)
  show ?case
  proof (cases "key_eq k s")
    case True
    with Cons.prems kv have "key_norm s \<notin> key_norm ` fst ` set d"
      by (auto simp: key_eq_def)
    with Cons True kv show ?thesis
      by (simp add: key_eq_def)
  next
    case False
    with Cons kv show ?thesis
      by (simp add: key_eq_def)
  qed
qed

lemma keys_bumped:
  fixes d :: "(json \<times> nat) list"
  shows "map (\<lambda>kv. key_norm (fst (case kv of (k, n) \<Rightarrow> if key_eq k s then (k, n + 1) else (k, n)))) d =
   map (\<lambda>kv. key_norm (fst kv)) d"
  by (induction d) auto

lemma count_sentiment_invariant:
  assumes "distinct (map (\<lambda>kv. key_norm (fst kv)) d)"
  shows "distinct (map (\<lambda>kv. key_norm (fst kv)) (count_sentiment s d)) \<and>
         sum_list (map snd (count_sentiment s d)) = sum_list (map snd d) + 1"
proof (cases "key_norm s \<in> key_norm ` fst ` set d")
  case True
  with assms show ?thesis
    by (simp add: count_sentiment_def comp_def keys_bumped sum_bumped [OF assms])
next
  case False
  with assms show ?thesis
    by (auto simp: count_sentiment_def comp_def keys_bumped sum_bumped [OF assms] key_eq_refl
        image_iff)
qed

lemma count_sentiments_total:
  "count_sentiments rs d = Inr d' \<Longrightarrow> distinct (map (\<lambda>kv. key_norm (fst kv)) d) \<Longrightarrow>
   sum_list (map snd d') = sum_list (map snd d) + length rs"
proof (induction rs arbitrary: d)
  case Nil
  then show ?case by simp
next
  case (Cons r rs)
  from Cons.prems(1) have rest:
    "count_sentiments rs (count_sentiment (sentiment_label r) d) = Inr d'"
    by (rule count_sentiments_Cons)
  from Cons.IH [OF rest] count_sentiment_invariant [OF Cons.prems(2)]
  show ?case by simp
qed

lemma count_sentiments_returns:
  "\<forall>r \<in> set rs. countable_label r \<Longrightarrow> \<exists>d'. count_sentiments rs d = Inr d'"
proof (induction rs arbitrary: d)
  case Nil
  then show ?case by simp
next
  case (Cons r rs)
  then have "countable_label r" by simp
  then obtain kvs where obj: "processed_result r = JObj kvs" and "hashable (sentiment_label r)"
    by (auto simp: countable_label_def split: json.splits)
  from obj have get:
    "dict_get (processed_result r) ''sentiment'' (JStr ''UNKNOWN'') = Inr (sentiment_label r)"
    by (simp add: dict_get_def sentiment_label_def split: option.splits)
  from \<open>hashable (sentiment_label r)\<close> have "count_sentiments (r # rs) d =
      count_sentiments rs (count_sentiment (sentiment_label r) d)"
    by (simp add: get)
  with Cons show ?case by simp
qed

text \<open>
  C2, as the specification states it, fails on the code: a label that is present is
  counted under its own value, whether recognised or not. An empty string and a null each
  get a bucket of their own, and no UNKNOWN bucket appears.
\<close>

theorem empty_label_has_own_bucket:
  "get_sentiment_distribution
     [(''id-1'', \<lparr>result_id = ''id-1'', original_text = ''hm'',
                  processed_result = JObj [(''sentiment'', JStr ''''), (''score'', JNum (1 / 2))],
                  task_type = ''sentiment'', created_at = 63900000000000000\<rparr>),
      (''id-2'', \<lparr>result_id = ''id-2'', original_text = ''well'',
                  processed_result = JObj [(''sentiment'', JNull)],
                  task_type = ''sentiment'', created_at = 63900000000000001\<rparr>)]
   = Inr [(JStr '''', 1), (JNull, 1)] \<and>
   lookup_count [(JStr '''', 1), (JNull, 1)] (JStr ''UNKNOWN'') = None"
  by (simp add: get_sentiment_distribution_def get_all_results_def dict_get_def
      count_sentiment_def key_eq_def lookup_count_def)

text \<open>
  C2, amended: for every store on which \<open>get_sentiment_distribution\<close> returns, it counts
  only the records with task type sentiment, each one exactly once under the label found in
  its result, where a result without a sentiment key counts under UNKNOWN: the count of a
  label is the number of sentiment records that carry it, and the counts add up to the
  number of sentiment records. It returns whenever every sentiment record holds a
  dictionary whose label is hashable.
\<close>

theorem sentiment_distribution_buckets:
  "(get_sentiment_distribution store = Inr distribution \<longrightarrow>
      lookup_count distribution label =
        (if labelled label store = 0 then None else Some (labelled label store)) \<and>
      sum_list (map snd distribution) =
        length (filter (\<lambda>r. task_type r = ''sentiment'') (get_all_results store))) \<and>
   ((\<forall>r \<in> set (get_all_results store). task_type r = ''sentiment'' \<longrightarrow> countable_label r) \<longrightarrow>
      (\<exists>d. get_sentiment_distribution store = Inr d)) \<and>
   (processed_result r = JObj kvs \<and> map_of kvs ''sentiment'' = None \<longrightarrow>
      sentiment_label r = JStr ''UNKNOWN'')"
proof -
  let ?rs = "filter (\<lambda>r. task_type r = ''sentiment'') (get_all_results store)"
  have counts: "lookup_count distribution label =
        (if labelled label store = 0 then None else Some (labelled label store)) \<and>
      sum_list (map snd distribution) = length ?rs"
    if "get_sentiment_distribution store = Inr distribution"
  proof -
    from that have run: "count_sentiments ?rs [] = Inr distribution"
      by (simp add: get_sentiment_distribution_def)
    have "labelled label store = length (filter (\<lambda>r. key_eq (sentiment_label r) label) ?rs)"
      by (simp add: labelled_def conj_commute)
    with count_sentiments_lookup [OF run, of label] count_sentiments_total [OF run]
    show ?thesis by (simp add: lookup_count_def)
  qed
  have returns: "\<exists>d. get_sentiment_distribution store = Inr d"
    if "\<forall>r \<in> set (get_all_results store). task_type r = ''sentiment'' \<longrightarrow> countable_label r"
    using that by (simp add: get_sentiment_distribution_def count_sentiments_returns)
  have "sentiment_label r = JStr ''UNKNOWN''"
    if "processed_result r = JObj kvs" and "map_of kvs ''sentiment'' = None"
    using that by (simp add: sentiment_label_def)
  with counts returns show ?thesis by blast
qed

theorem sentiment_distribution_buckets_witness:
  "get_sentiment_distribution sample_store =
     Inr [(JStr ''POSITIVE'', 2), (JStr ''UNKNOWN'', 1)] \<and>
   labelled (JStr ''UNKNOWN'') sample_store = 1 \<and>
   lookup_count [(JStr ''POSITIVE'', 2), (JStr ''UNKNOWN'', 1)] (JStr ''UNKNOWN'') = Some 1 \<and>
   sum_list (map snd [(JStr ''POSITIVE'', 2 :: nat), (JStr ''UNKNOWN'', 1)]) =
     length (filter (\<lambda>r. task_type r = ''sentiment'') (get_all_results sample_store)) \<and>
   sentiment_label (snd (sample_store ! 1)) = JStr ''UNKNOWN''"
proof -
  have run: "get_sentiment_distribution sample_store =
      Inr [(JStr ''POSITIVE'', 2), (JStr ''UNKNOWN'', 1)]"
    by code_simp
  have unknown: "labelled (JStr ''UNKNOWN'') sample_store = 1"
    by code_simp
  have countable: "\<forall>r \<in> set (get_all_results sample_store).
      task_type r = ''sentiment'' \<longrightarrow> countable_label r"
    by code_simp
  have absent: "processed_result (snd (sample_store ! 1)) = JObj [(''score'', JNum (1 / 2))] \<and>
      map_of [(''score'', JNum (1 / 2))] ''sentiment'' = None"
    by (simp add: sample_store_def)
  show ?thesis
    using run unknown countable absent
      sentiment_distribution_buckets [of sample_store
        "[(JStr ''POSITIVE'', 2), (JStr ''UNKNOWN'', 1)]" "JStr ''UNKNOWN''"
        "snd (sample_store ! 1)" "[(''score'', JNum (1 / 2))]"]
    by simp
qed

end
